theory Spec2Isabelle
  imports Main "HOL-Library.Word"
begin

section \<open>Values exchanged with the collaborators\<close>

text \<open>
  The program is the class \<open>RealtimeSTT\<close> of \<open>realtime_stt.py\<close> and its \<open>main\<close>. An audio
  block is the \<open>bytes\<close> copy of the device buffer. The status argument of the device callback
  is sounddevice's flag set, read only through its truth value (non-zero) and its text.
\<close>

type_synonym bytes = "8 word list"

type_synonym callback_flags = nat

text \<open>
  The recognizer's result is a JSON document. The code reads one key of it and calls
  \<open>strip\<close> on the value, so of a decoded value only this is kept: whether it is a \<open>str\<close> (and
  which), and of the document whether it is an object (a \<open>dict\<close>, which has \<open>get\<close>).
\<close>

datatype pyval = PyStr string | PyNonStr

datatype json_doc = JObject "string \<Rightarrow> pyval option" | JNonObject

text \<open>
  Exceptions, all derived from \<open>Exception\<close>: \<open>queue.Empty\<close>, the two the code itself can
  provoke, and any other, with its message. What is raised outside \<open>Exception\<close>
  (\<open>SystemExit\<close>, \<open>KeyboardInterrupt\<close>) is a signal; a worker thread is taken not to
  receive one.
\<close>

datatype exn = Empty | AttributeError | KeyError | Raised string

datatype signal = SystemExit int

datatype log_entry =
    Print string
  | Warning_audio_stream_status callback_flags
  | Error_processing_audio exn
  | Error_in_output_processor exn
  | Info_started
  | Info_stopped

datatype dtype = Int16

datatype handler = Audio_callback

datatype device_call =
    RawInputStream int int dtype nat handler
  | Stream_start nat
  | Stream_stop nat
  | Stream_close nat

text \<open>
  The consumer callback is any callable and may keep state of its own: it is given the
  arguments of its earlier invocations, and answers with the lines it writes to standard
  output and the exception it raises, if any.
\<close>

type_synonym callback = "pyval list \<Rightarrow> pyval \<Rightarrow> string list \<times> exn option"

text \<open>
  The Vosk side and the JSON decoder. \<open>new_recognizer\<close> stands for the three statements
  of the constructor's \<open>try\<close> block (\<open>Model(model_path)\<close>,
  \<open>KaldiRecognizer(model, sample_rate)\<close>, \<open>SetWords(True)\<close>); \<open>AcceptWaveform\<close> and
  \<open>Result\<close> change the decoder's state \<open>'r\<close> whether they return or raise. A failure of
  these libraries is an exception with a message (\<open>Inl\<close> the message). The audio device
  is taken to accept every call made on it.
\<close>

record 'r collaborators =
  new_recognizer :: "string \<Rightarrow> int \<Rightarrow> string + 'r"
  AcceptWaveform :: "'r \<Rightarrow> bytes \<Rightarrow> (string + bool) \<times> 'r"
  Result :: "'r \<Rightarrow> (string + string) \<times> 'r"
  json_loads :: "string \<Rightarrow> string + json_doc"

section \<open>The object and the world it acts on\<close>

text \<open>
  The first eight fields are the attributes of the object (\<open>stream = None\<close>: the attribute
  is not there yet). The others are the world: what was logged and printed, the calls made
  on the audio device, the live worker threads of each stage, and the history of the calls
  \<open>audio_queue.put\<close>, \<open>AcceptWaveform\<close>, \<open>result_queue.put\<close> and \<open>callback\<close>, each with its
  argument, in the order they were made.
\<close>

record 'r stt =
  sample_rate :: int
  block_size :: int
  running :: bool
  audio_queue :: "bytes list"
  result_queue :: "pyval list"
  recognizer :: 'r
  callback :: callback
  stream :: "nat option"
  logged :: "log_entry list"
  device :: "device_call list"
  recognition_threads :: nat
  dispatch_threads :: nat
  audio_put :: "bytes list"
  accepted :: "bytes list"
  result_put :: "pyval list"
  delivered :: "pyval list"

section \<open>Strings\<close>

text \<open>
  \<open>str.isspace\<close> on the code points below 256: tab to carriage return, the four
  separators 28 to 31, the space, NEL and the no-break space.
\<close>

definition isspace :: "char \<Rightarrow> bool" where
  "isspace c = (of_char c \<in> set [9, 10, 11, 12, 13, 28, 29, 30, 31, 32, 133, 160 :: nat])"

definition strip :: "string \<Rightarrow> string" where
  "strip s = rev (dropWhile isspace (rev (dropWhile isspace s)))"

definition dict_get :: "(string \<Rightarrow> pyval option) \<Rightarrow> string \<Rightarrow> pyval \<Rightarrow> pyval" where
  "dict_get d k dflt = (case d k of None \<Rightarrow> dflt | Some v \<Rightarrow> v)"

section \<open>The class\<close>

definition default_callback :: callback where
  "default_callback earlier text =
     (case text of
        PyStr s \<Rightarrow> (if strip s \<noteq> [] then [''Transcribed: '' @ s] else [], None)
      | PyNonStr \<Rightarrow> ([], Some AttributeError))"

definition RealtimeSTT_init ::
  "'r collaborators \<Rightarrow> string \<Rightarrow> int \<Rightarrow> callback option \<Rightarrow> (log_entry list \<times> signal) + 'r stt" where
  "RealtimeSTT_init env model_path rate cb =
     (case new_recognizer env model_path rate of
        Inl m \<Rightarrow>
          Inl ([Print (''Error loading model: '' @ m),
                Print ''Please ensure you have downloaded the Vosk model.''],
               SystemExit 1)
      | Inr r \<Rightarrow>
          Inr \<lparr> sample_rate = rate, block_size = 8000, running = False,
                audio_queue = [], result_queue = [], recognizer = r,
                callback = (case cb of Some f \<Rightarrow> f | None \<Rightarrow> default_callback),
                stream = None, logged = [], device = [],
                recognition_threads = 0, dispatch_threads = 0,
                audio_put = [], accepted = [], result_put = [], delivered = [] \<rparr>)"

definition audio_callback :: "bytes \<Rightarrow> callback_flags \<Rightarrow> 'r stt \<Rightarrow> 'r stt" where
  "audio_callback indata status st =
     (let st1 = (if status \<noteq> 0
                 then st\<lparr>logged := logged st @ [Warning_audio_stream_status status]\<rparr>
                 else st)
      in if running st1
         then st1\<lparr>audio_queue := audio_queue st1 @ [indata],
                  audio_put := audio_put st1 @ [indata]\<rparr>
         else st1)"

text \<open>
  \<open>Queue.get(timeout=2)\<close>: the oldest item and the rest, or \<open>queue.Empty\<close> (\<open>None\<close>) when
  nothing is there by the end of the wait.
\<close>

definition queue_get :: "'a list \<Rightarrow> ('a \<times> 'a list) option" where
  "queue_get q = (case q of [] \<Rightarrow> None | x # rest \<Rightarrow> Some (x, rest))"

text \<open>
  The statements of \<open>_process_audio\<close> after the \<open>get\<close>, lines 67 to 70: the value to put on
  the result queue (\<open>None\<close>: nothing to put), or the exception that leaves the \<open>try\<close> block.
\<close>

definition recognize :: "'r collaborators \<Rightarrow> 'r \<Rightarrow> bytes \<Rightarrow> (exn + pyval option) \<times> 'r" where
  "recognize env r audio_data =
     (case AcceptWaveform env r audio_data of
        (Inl m, r1) \<Rightarrow> (Inl (Raised m), r1)
      | (Inr False, r1) \<Rightarrow> (Inr None, r1)
      | (Inr True, r1) \<Rightarrow>
          (case Result env r1 of
             (Inl m, r2) \<Rightarrow> (Inl (Raised m), r2)
           | (Inr s, r2) \<Rightarrow>
               (case json_loads env s of
                  Inl m \<Rightarrow> (Inl (Raised m), r2)
                | Inr JNonObject \<Rightarrow> (Inl AttributeError, r2)
                | Inr (JObject result) \<Rightarrow>
                    (case dict_get result ''text'' (PyStr []) of
                       PyNonStr \<Rightarrow> (Inl AttributeError, r2)
                     | PyStr t \<Rightarrow>
                         if strip t \<noteq> []
                         then (case result ''text'' of
                                 None \<Rightarrow> (Inl KeyError, r2)
                               | Some v \<Rightarrow> (Inr (Some v), r2))
                         else (Inr None, r2)))))"

text \<open>
  One turn of the loop of \<open>_process_audio\<close>, taken by a live thread of the stage: the test
  of \<open>self.running\<close> (false: the loop and the thread end), the \<open>get\<close>, and the body with its
  two handlers. The handler of \<open>queue.Empty\<close> covers the whole \<open>try\<close> block, so it also
  takes a \<open>queue.Empty\<close> coming out of the body.
\<close>

definition process_audio :: "'r collaborators \<Rightarrow> 'r stt \<Rightarrow> 'r stt" where
  "process_audio env st =
     (if recognition_threads st = 0 then st
      else if \<not> running st then st\<lparr>recognition_threads := recognition_threads st - 1\<rparr>
      else
        (case queue_get (audio_queue st) of
           None \<Rightarrow> st
         | Some (audio_data, rest) \<Rightarrow>
             (case recognize env (recognizer st) audio_data of
                (res, r') \<Rightarrow>
                  (let st1 = st\<lparr>audio_queue := rest, recognizer := r',
                                accepted := accepted st @ [audio_data]\<rparr>
                   in case res of
                        Inl e \<Rightarrow>
                          if e = Empty then st1
                          else st1\<lparr>logged := logged st1 @ [Error_processing_audio e]\<rparr>
                      | Inr None \<Rightarrow> st1
                      | Inr (Some v) \<Rightarrow>
                          st1\<lparr>result_queue := result_queue st1 @ [v],
                              result_put := result_put st1 @ [v]\<rparr>))))"

text \<open>One turn of the loop of \<open>_output_processor\<close>.\<close>

definition output_processor :: "'r stt \<Rightarrow> 'r stt" where
  "output_processor st =
     (if dispatch_threads st = 0 then st
      else if \<not> running st then st\<lparr>dispatch_threads := dispatch_threads st - 1\<rparr>
      else
        (case queue_get (result_queue st) of
           None \<Rightarrow> st
         | Some (text, rest) \<Rightarrow>
             (case callback st (delivered st) text of
                (printed, exc) \<Rightarrow>
                  (let st1 = st\<lparr>result_queue := rest,
                                delivered := delivered st @ [text],
                                logged := logged st @ map Print printed\<rparr>
                   in case exc of
                        None \<Rightarrow> st1
                      | Some e \<Rightarrow>
                          if e = Empty then st1
                          else st1\<lparr>logged := logged st1 @ [Error_in_output_processor e]\<rparr>))))"

text \<open>A stream is named by the number of streams opened before it.\<close>

fun is_open_call :: "device_call \<Rightarrow> bool" where
  "is_open_call (RawInputStream _ _ _ _ _) = True"
| "is_open_call _ = False"

definition start :: "'r stt \<Rightarrow> 'r stt" where
  "start st =
     (let st1 = st\<lparr>running := True\<rparr>;
          sid = length (filter is_open_call (device st1));
          st2 = st1\<lparr>device := device st1 @
                        [RawInputStream (sample_rate st1) (block_size st1) Int16 1 Audio_callback],
                     stream := Some sid\<rparr>;
          st3 = st2\<lparr>device := device st2 @ [Stream_start sid]\<rparr>;
          st4 = st3\<lparr>recognition_threads := Suc (recognition_threads st3)\<rparr>;
          st5 = st4\<lparr>dispatch_threads := Suc (dispatch_threads st4)\<rparr>
      in st5\<lparr>logged := logged st5 @ [Info_started]\<rparr>)"

definition stop :: "'r stt \<Rightarrow> 'r stt" where
  "stop st =
     (let st1 = st\<lparr>running := False\<rparr>;
          st2 = (case stream st1 of
                   None \<Rightarrow> st1
                 | Some sid \<Rightarrow> st1\<lparr>device := device st1 @ [Stream_stop sid, Stream_close sid]\<rparr>)
      in st2\<lparr>logged := logged st2 @ [Info_stopped]\<rparr>)"

section \<open>Schedules\<close>

text \<open>
  What happens around a started object, one event at a time: the device delivers a block,
  a recognition thread or a dispatch thread takes one turn of its loop, or the controller
  calls \<open>stop\<close>. A turn is taken whole: between its \<open>get\<close> and its \<open>put\<close> a worker
  touches nothing another thread writes, and it reads the flag at the head of the loop only.
\<close>

datatype event = Block bytes callback_flags | Recognition | Dispatch | Stop

fun step :: "'r collaborators \<Rightarrow> event \<Rightarrow> 'r stt \<Rightarrow> 'r stt" where
  "step env (Block indata status) st = audio_callback indata status st"
| "step env Recognition st = process_audio env st"
| "step env Dispatch st = output_processor st"
| "step env Stop st = stop st"

fun run :: "'r collaborators \<Rightarrow> event list \<Rightarrow> 'r stt \<Rightarrow> 'r stt" where
  "run env [] st = st"
| "run env (e # es) st = run env es (step env e st)"

section \<open>The process\<close>

text \<open>
  \<open>main\<close>, with the command line already parsed and \<open>sched\<close> what happens up to the
  interrupt that breaks the \<open>readline\<close> loop. The \<open>finally\<close> clause stops the object if
  \<open>stt\<close> was bound and then calls \<open>sys.exit(0)\<close>: an exception raised in a \<open>finally\<close>
  clause replaces the one in flight.
\<close>

record 'r process =
  exit_status :: int
  printed :: "log_entry list"
  final :: "'r stt option"

fun raise_in_finally :: "signal option \<Rightarrow> signal \<Rightarrow> signal" where
  "raise_in_finally in_flight new = new"

fun status_of :: "signal \<Rightarrow> int" where
  "status_of (SystemExit n) = n"

definition banner :: "log_entry list" where
  "banner = [Print ''Starting Real-time Speech-to-Text System...'',
             Print ''Make sure you have downloaded the Vosk model from https://alphacephei.com/vosk/models'',
             Print ''Press Ctrl+C to exit'']"

definition main :: "'r collaborators \<Rightarrow> string \<Rightarrow> int \<Rightarrow> event list \<Rightarrow> 'r process" where
  "main env model rate sched =
     (case (case RealtimeSTT_init env model rate None of
              Inl (lines, sig) \<Rightarrow> (Some sig, lines, None)
            | Inr stt \<Rightarrow> (None, [], Some (run env sched (start stt)))) of
        (in_flight, lines, stt) \<Rightarrow>
          \<lparr> exit_status = status_of (raise_in_finally in_flight (SystemExit 0)),
            printed = banner @ lines,
            final = map_option stop stt \<rparr>)"

definition opened :: "'r process \<Rightarrow> device_call list" where
  "opened p = (case final p of None \<Rightarrow> [] | Some st \<Rightarrow> filter is_open_call (device st))"

section \<open>A recognizer to run the pipeline on\<close>

text \<open>
  A small decoder for concrete runs. Its state is the first byte of the block fed last; an
  empty block is malformed, a block starting with 0 leaves the utterance in progress, any
  other completes one. The utterance's text is chosen by that byte, and byte 255 makes
  \<open>Result\<close> fail. The decoded document has the one key \<open>text\<close>, except for the empty
  object, for a document that is a list, and for one whose text is a number.
\<close>

definition mock :: "8 word collaborators" where
  "mock =
     \<lparr> new_recognizer = (\<lambda>path rate.
          if path = ''vosk-model-small-en-us-0.15'' then Inr 0
          else Inl ''Failed to create a model''),
       AcceptWaveform = (\<lambda>r b.
          case b of [] \<Rightarrow> (Inl ''malformed block'', r)
                  | x # _ \<Rightarrow> (Inr (x \<noteq> 0), x)),
       Result = (\<lambda>r.
          (if r = 255 then Inl ''decoder failure''
           else Inr (if r = 1 then ''hello world''
                     else if r = 2 then []
                     else if r = 3 then ''  hi ''
                     else if r = 4 then ''   ''
                     else if r = 5 then ''{}''
                     else if r = 6 then ''[]''
                     else if r = 7 then ''5''
                     else ''again''), r)),
       json_loads = (\<lambda>s.
          if s = ''{}'' then Inr (JObject (\<lambda>k. None))
          else if s = ''[]'' then Inr JNonObject
          else if s = ''5'' then Inr (JObject (\<lambda>k. if k = ''text'' then Some PyNonStr else None))
          else Inr (JObject (\<lambda>k. if k = ''text'' then Some (PyStr s) else None))) \<rparr>"

text \<open>The object built by the constructor on the mock, with the default callback.\<close>

definition stt0 :: "8 word stt" where
  "stt0 =
     \<lparr> sample_rate = 16000, block_size = 8000, running = False,
       audio_queue = [], result_queue = [], recognizer = 0,
       callback = default_callback,
       stream = None, logged = [], device = [],
       recognition_threads = 0, dispatch_threads = 0,
       audio_put = [], accepted = [], result_put = [], delivered = [] \<rparr>"

section \<open>Invariants of the pipeline\<close>

text \<open>The filter of line 69: a \<open>str\<close> that is not empty once stripped.\<close>

definition nonblank :: "pyval \<Rightarrow> bool" where
  "nonblank v = (case v of PyStr s \<Rightarrow> strip s \<noteq> [] | PyNonStr \<Rightarrow> False)"

text \<open>
  Each queue holds exactly what was put and not yet taken, oldest first: the calls made
  downstream so far, followed by the queue, are the puts made so far.
\<close>

definition fifo :: "'r stt \<Rightarrow> bool" where
  "fifo st = (audio_put st = accepted st @ audio_queue st \<and>
              result_put st = delivered st @ result_queue st)"

definition filtered :: "'r stt \<Rightarrow> bool" where
  "filtered st = list_all nonblank (result_put st)"

text \<open>While the flag is true, each stage has a thread in its loop.\<close>

definition live :: "'r stt \<Rightarrow> bool" where
  "live st = (if running st then 0 < recognition_threads st \<and> 0 < dispatch_threads st else True)"

section \<open>What the stages compute\<close>

text \<open>
  The pipeline said without queues and threads, from the collaborators alone. For one
  block given to a decoder in state \<open>r\<close>: the state the decoder is left in
  (\<open>AcceptWaveform\<close>, then \<open>Result\<close> when a boundary is reported), the text that goes to the
  result queue (none or one), and the error that is logged (none or one).
\<close>

definition decoder_after :: "'r collaborators \<Rightarrow> 'r \<Rightarrow> bytes \<Rightarrow> 'r" where
  "decoder_after env r b =
     (case AcceptWaveform env r b of
        (Inr True, r1) \<Rightarrow> snd (Result env r1)
      | (_, r1) \<Rightarrow> r1)"

definition finalized :: "'r collaborators \<Rightarrow> 'r \<Rightarrow> bytes \<Rightarrow> pyval list" where
  "finalized env r b =
     (case AcceptWaveform env r b of
        (Inr True, r1) \<Rightarrow>
          (case Result env r1 of
             (Inr s, _) \<Rightarrow>
               (case json_loads env s of
                  Inr (JObject result) \<Rightarrow>
                    (if nonblank (dict_get result ''text'' (PyStr []))
                     then [dict_get result ''text'' (PyStr [])] else [])
                | _ \<Rightarrow> [])
           | _ \<Rightarrow> [])
      | _ \<Rightarrow> [])"

definition failure :: "'r collaborators \<Rightarrow> 'r \<Rightarrow> bytes \<Rightarrow> log_entry list" where
  "failure env r b =
     (case AcceptWaveform env r b of
        (Inl m, _) \<Rightarrow> [Error_processing_audio (Raised m)]
      | (Inr False, _) \<Rightarrow> []
      | (Inr True, r1) \<Rightarrow>
          (case Result env r1 of
             (Inl m, _) \<Rightarrow> [Error_processing_audio (Raised m)]
           | (Inr s, _) \<Rightarrow>
               (case json_loads env s of
                  Inl m \<Rightarrow> [Error_processing_audio (Raised m)]
                | Inr JNonObject \<Rightarrow> [Error_processing_audio AttributeError]
                | Inr (JObject result) \<Rightarrow>
                    (case dict_get result ''text'' (PyStr []) of
                       PyNonStr \<Rightarrow> [Error_processing_audio AttributeError]
                     | PyStr t \<Rightarrow> []))))"

text \<open>The same for a sequence of blocks fed one after the other, oldest first.\<close>

fun fed_state :: "'r collaborators \<Rightarrow> 'r \<Rightarrow> bytes list \<Rightarrow> 'r" where
  "fed_state env r [] = r"
| "fed_state env r (b # bs) = fed_state env (decoder_after env r b) bs"

fun fed_results :: "'r collaborators \<Rightarrow> 'r \<Rightarrow> bytes list \<Rightarrow> pyval list" where
  "fed_results env r [] = []"
| "fed_results env r (b # bs) = finalized env r b @ fed_results env (decoder_after env r b) bs"

fun fed_errors :: "'r collaborators \<Rightarrow> 'r \<Rightarrow> bytes list \<Rightarrow> log_entry list" where
  "fed_errors env r [] = []"
| "fed_errors env r (b # bs) = failure env r b @ fed_errors env (decoder_after env r b) bs"

text \<open>
  What one invocation of the consumer leaves in the log (the lines it prints, then the
  error entry if it raises anything but \<open>queue.Empty\<close>), and the same for a sequence of
  results handed over one after the other, each invocation knowing the earlier ones.
\<close>

definition invoked :: "callback \<Rightarrow> pyval list \<Rightarrow> pyval \<Rightarrow> log_entry list" where
  "invoked cb earlier v =
     (case cb earlier v of
        (lines, exc) \<Rightarrow>
          map Print lines @
          (case exc of None \<Rightarrow> []
                     | Some e \<Rightarrow> if e = Empty then [] else [Error_in_output_processor e]))"

fun invoke_all :: "callback \<Rightarrow> pyval list \<Rightarrow> pyval list \<Rightarrow> log_entry list" where
  "invoke_all cb earlier [] = []"
| "invoke_all cb earlier (v # vs) = invoked cb earlier v @ invoke_all cb (earlier @ [v]) vs"

text \<open>The log entries written by each worker stage.\<close>

fun is_recognition_entry :: "log_entry \<Rightarrow> bool" where
  "is_recognition_entry (Error_processing_audio e) = True"
| "is_recognition_entry _ = False"

fun is_dispatch_entry :: "log_entry \<Rightarrow> bool" where
  "is_dispatch_entry (Print line) = True"
| "is_dispatch_entry (Error_in_output_processor e) = True"
| "is_dispatch_entry _ = False"

text \<open>The blocks a schedule delivers before its first \<open>stop\<close>.\<close>

fun blocks_while_running :: "event list \<Rightarrow> bytes list" where
  "blocks_while_running [] = []"
| "blocks_while_running (Block indata status # es) = indata # blocks_while_running es"
| "blocks_while_running (Stop # es) = []"
| "blocks_while_running (Recognition # es) = blocks_while_running es"
| "blocks_while_running (Dispatch # es) = blocks_while_running es"

text \<open>
  Decoder state, results and log are those of the blocks accepted and the results
  delivered so far, taken in order from the decoder's first state \<open>r0\<close>.
\<close>

definition traced :: "'r collaborators \<Rightarrow> 'r \<Rightarrow> callback \<Rightarrow> 'r stt \<Rightarrow> bool" where
  "traced env r0 cb st =
     (callback st = cb
      \<and> recognizer st = fed_state env r0 (accepted st)
      \<and> result_put st = fed_results env r0 (accepted st)
      \<and> filter is_recognition_entry (logged st) = fed_errors env r0 (accepted st)
      \<and> filter is_dispatch_entry (logged st) = invoke_all cb [] (delivered st))"

text \<open>
  A consumer that raises \<open>queue.Empty\<close> on the first result it is given, and only on
  that one.
\<close>

definition Empty_on_first :: callback where
  "Empty_on_first earlier text = (if earlier = [] then ([], Some Empty) else ([], None))"

text \<open>States of concrete runs.\<close>

definition third_block_malformed :: "8 word stt" where
  "third_block_malformed =
     run mock [Block [1] 0, Block [0] 0, Block [] 0, Block [3] 0, Block [0] 0,
               Recognition, Recognition] (start stt0)"

definition first_result_refused :: "8 word stt" where
  "first_result_refused =
     run mock [Block [1] 0, Block [3] 0, Recognition, Recognition]
       (start (stt0\<lparr>callback := Empty_on_first\<rparr>))"

definition padded_text_next :: "8 word stt" where
  "padded_text_next = run mock [Block [1] 0, Recognition, Block [3] 0] (start stt0)"

definition mixed_run :: "8 word stt" where
  "mixed_run =
     run mock [Block [1] 0, Block [0] 0, Block [3] 0, Block [0] 2,
               Recognition, Recognition, Recognition, Dispatch, Dispatch] (start stt0)"

definition workers_gone :: "8 word stt" where
  "workers_gone =
     run mock [Block [1] 0, Block [3] 0, Recognition, Stop, Recognition, Dispatch] (start stt0)"

section \<open>Properties of the model\<close>

lemma init_stt0: "RealtimeSTT_init mock ''vosk-model-small-en-us-0.15'' 16000 None = Inr stt0"
  by (simp add: RealtimeSTT_init_def mock_def stt0_def)

lemma run_append: "run env (es @ fs) st = run env fs (run env es st)"
  by (induction es arbitrary: st) simp_all

lemma recognize_Some_nonblank:
  "recognize env r b = (Inr (Some v), r') \<Longrightarrow> nonblank v"
  by (auto simp: recognize_def nonblank_def dict_get_def
      split: prod.splits sum.splits bool.splits json_doc.splits pyval.splits if_splits
             option.splits)

subsection \<open>First in, first out\<close>

lemma fifo_audio_callback: "fifo st \<Longrightarrow> fifo (audio_callback indata status st)"
  by (simp add: fifo_def audio_callback_def Let_def)

lemma fifo_process_audio: "fifo st \<Longrightarrow> fifo (process_audio env st)"
  by (auto simp: fifo_def process_audio_def queue_get_def Let_def
      split: list.splits prod.splits sum.splits option.splits)

lemma fifo_output_processor: "fifo st \<Longrightarrow> fifo (output_processor st)"
  by (auto simp: fifo_def output_processor_def queue_get_def Let_def
      split: list.splits prod.splits option.splits)

lemma fifo_stop: "fifo st \<Longrightarrow> fifo (stop st)"
  by (simp add: fifo_def stop_def Let_def split: option.splits)

lemma fifo_start: "fifo st \<Longrightarrow> fifo (start st)"
  by (simp add: fifo_def start_def Let_def)

lemma fifo_step: "fifo st \<Longrightarrow> fifo (step env e st)"
  by (cases e)
     (simp_all add: fifo_audio_callback fifo_process_audio fifo_output_processor fifo_stop)

lemma fifo_run: "fifo st \<Longrightarrow> fifo (run env es st)"
  by (induction es arbitrary: st) (simp_all add: fifo_step)

lemma fifo_init: "RealtimeSTT_init env path rate cb = Inr st \<Longrightarrow> fifo st"
  by (auto simp: RealtimeSTT_init_def fifo_def split: sum.splits)

subsection \<open>Threads under a true flag\<close>

lemma live_step: "live st \<Longrightarrow> live (step env e st)"
proof (cases e)
  case (Block indata status)
  assume "live st"
  then show ?thesis
    by (simp add: Block live_def audio_callback_def Let_def)
next
  case Recognition
  assume "live st"
  then show ?thesis
    by (auto simp: Recognition live_def process_audio_def queue_get_def Let_def
        split: list.splits prod.splits sum.splits option.splits if_splits)
next
  case Dispatch
  assume "live st"
  then show ?thesis
    by (auto simp: Dispatch live_def output_processor_def queue_get_def Let_def
        split: list.splits prod.splits option.splits if_splits)
next
  case Stop
  show ?thesis
    by (simp add: Stop live_def stop_def Let_def split: option.splits)
qed

lemma live_run: "live st \<Longrightarrow> live (run env es st)"
  by (induction es arbitrary: st) (simp_all add: live_step)

lemma live_start: "live (start st)"
  by (simp add: live_def start_def Let_def)

subsection \<open>Draining a queue\<close>

lemma process_audio_turn:
  assumes "running st" "0 < recognition_threads st" "audio_queue st = b # rest"
  shows "audio_queue (process_audio env st) = rest"
    and "accepted (process_audio env st) = accepted st @ [b]"
    and "running (process_audio env st)"
    and "recognition_threads (process_audio env st) = recognition_threads st"
  using assms
  by (auto simp: process_audio_def queue_get_def Let_def
      split: list.splits prod.splits sum.splits option.splits)

lemma drain_audio:
  "running st \<Longrightarrow> 0 < recognition_threads st \<Longrightarrow>
   accepted (run env (replicate (length (audio_queue st)) Recognition) st)
     = accepted st @ audio_queue st
   \<and> audio_queue (run env (replicate (length (audio_queue st)) Recognition) st) = []
   \<and> running (run env (replicate (length (audio_queue st)) Recognition) st)
   \<and> recognition_threads (run env (replicate (length (audio_queue st)) Recognition) st)
     = recognition_threads st"
proof (induction "audio_queue st" arbitrary: st)
  case Nil
  then show ?case by simp
next
  case (Cons b rest)
  from Cons.hyps(2) have q: "audio_queue st = b # rest" by simp
  note t = process_audio_turn [OF Cons.prems q]
  have "rest = audio_queue (process_audio env st)" using t(1) by simp
  from Cons.hyps(1) [OF this] t Cons.prems show ?case
    by (simp add: q)
qed

lemma output_processor_turn:
  assumes "running st" "0 < dispatch_threads st" "result_queue st = v # rest"
  shows "result_queue (output_processor st) = rest"
    and "delivered (output_processor st) = delivered st @ [v]"
    and "running (output_processor st)"
    and "dispatch_threads (output_processor st) = dispatch_threads st"
  using assms
  by (auto simp: output_processor_def queue_get_def Let_def
      split: list.splits prod.splits option.splits)

lemma drain_results:
  "running st \<Longrightarrow> 0 < dispatch_threads st \<Longrightarrow>
   delivered (run env (replicate (length (result_queue st)) Dispatch) st)
     = delivered st @ result_queue st
   \<and> result_queue (run env (replicate (length (result_queue st)) Dispatch) st) = []
   \<and> running (run env (replicate (length (result_queue st)) Dispatch) st)
   \<and> dispatch_threads (run env (replicate (length (result_queue st)) Dispatch) st)
     = dispatch_threads st"
proof (induction "result_queue st" arbitrary: st)
  case Nil
  then show ?case by simp
next
  case (Cons v rest)
  from Cons.hyps(2) have q: "result_queue st = v # rest" by simp
  note t = output_processor_turn [OF Cons.prems q]
  have "rest = result_queue (output_processor st)" using t(1) by simp
  from Cons.hyps(1) [OF this] t Cons.prems show ?case
    by (simp add: q)
qed

subsection \<open>The filter\<close>

lemma filtered_step: "filtered st \<Longrightarrow> filtered (step env e st)"
proof (cases e)
  case Recognition
  assume "filtered st"
  then show ?thesis
    by (auto simp: Recognition filtered_def process_audio_def queue_get_def Let_def
          recognize_Some_nonblank
        split: list.splits prod.splits sum.splits option.splits)
next
  case Dispatch
  assume "filtered st"
  then show ?thesis
    by (auto simp: Dispatch filtered_def output_processor_def queue_get_def Let_def
        split: list.splits prod.splits option.splits)
next
  case (Block indata status)
  assume "filtered st"
  then show ?thesis
    by (simp add: Block filtered_def audio_callback_def Let_def)
next
  case Stop
  assume "filtered st"
  then show ?thesis
    by (simp add: Stop filtered_def stop_def Let_def split: option.splits)
qed

lemma filtered_run: "filtered st \<Longrightarrow> filtered (run env es st)"
  by (induction es arbitrary: st) (simp_all add: filtered_step)

lemma filtered_start: "filtered st \<Longrightarrow> filtered (start st)"
  by (simp add: filtered_def start_def Let_def)

lemma filtered_init: "RealtimeSTT_init env path rate cb = Inr st \<Longrightarrow> filtered st"
  by (auto simp: RealtimeSTT_init_def filtered_def split: sum.splits)

lemma strip_Nil: "strip [] = []"
  by (simp add: strip_def)

lemma recognize_boundary:
  assumes "AcceptWaveform env r b = (Inr True, r1)"
    and "Result env r1 = (Inr s, r2)"
    and "json_loads env s = Inr (JObject result)"
  shows "recognize env r b =
           (case dict_get result ''text'' (PyStr []) of
              PyNonStr \<Rightarrow> Inl AttributeError
            | PyStr t \<Rightarrow> if strip t \<noteq> [] then Inr (Some (PyStr t)) else Inr None, r2)"
  using assms
  by (auto simp: recognize_def dict_get_def strip_Nil split: pyval.splits option.splits)

lemma process_audio_result_queue:
  assumes "running st" "0 < recognition_threads st" "audio_queue st = b # rest"
    and "recognize env (recognizer st) b = (res, r')"
  shows "result_queue (process_audio env st)
           = result_queue st @ (case res of Inr (Some v) \<Rightarrow> [v] | _ \<Rightarrow> [])"
  using assms
  by (auto simp: process_audio_def queue_get_def Let_def split: sum.splits option.splits)

subsection \<open>A failing item\<close>

lemma recognize_not_Empty: "recognize env r b = (Inl e, r') \<Longrightarrow> e \<noteq> Empty"
  by (auto simp: recognize_def
      split: prod.splits sum.splits bool.splits json_doc.splits pyval.splits if_splits
             option.splits)

lemma process_audio_raises:
  assumes "running st" "0 < recognition_threads st" "audio_queue st = b # rest"
    and "recognize env (recognizer st) b = (Inl e, r')"
  shows "process_audio env st
           = st\<lparr>audio_queue := rest, recognizer := r', accepted := accepted st @ [b],
                logged := logged st @ [Error_processing_audio e]\<rparr>"
  using assms recognize_not_Empty [OF assms(4)]
  by (simp add: process_audio_def queue_get_def Let_def)

lemma output_processor_raises:
  assumes "running st" "0 < dispatch_threads st" "result_queue st = v # rest"
    and "callback st (delivered st) v = (lines, Some e)"
  shows "output_processor st
           = st\<lparr>result_queue := rest, delivered := delivered st @ [v],
                logged := logged st @ map Print lines @
                          (if e = Empty then [] else [Error_in_output_processor e])\<rparr>"
  using assms by (simp add: output_processor_def queue_get_def Let_def)

lemma process_audio_dispatch_side:
  shows "dispatch_threads (process_audio env st) = dispatch_threads st"
    and "delivered (process_audio env st) = delivered st"
  by (auto simp: process_audio_def queue_get_def Let_def
      split: list.splits prod.splits sum.splits option.splits)

lemma dispatch_isolation:
  assumes "running st" and "0 < dispatch_threads st" and "result_queue st = v # rest"
    and "callback st (delivered st) v = (lines, Some e)"
  shows "delivered (run env (replicate (length rest) Dispatch) (output_processor st))
           = delivered st @ v # rest
       \<and> running (run env (replicate (length rest) Dispatch) (output_processor st))
       \<and> dispatch_threads (run env (replicate (length rest) Dispatch) (output_processor st))
           = dispatch_threads st"
proof -
  note t = output_processor_turn [OF assms(1-3)]
  from t assms(2) have "0 < dispatch_threads (output_processor st)" by simp
  from drain_results [OF t(3) this, of env] t
  show ?thesis by simp
qed

subsection \<open>After the workers have left\<close>

lemma quiet_step:
  assumes "\<not> running st" "recognition_threads st = 0" "dispatch_threads st = 0"
  shows "\<not> running (step env e st)"
    and "recognition_threads (step env e st) = 0"
    and "dispatch_threads (step env e st) = 0"
    and "accepted (step env e st) = accepted st"
    and "delivered (step env e st) = delivered st"
    and "audio_queue (step env e st) = audio_queue st"
    and "result_queue (step env e st) = result_queue st"
  using assms
  by (cases e; simp add: audio_callback_def process_audio_def output_processor_def stop_def
        Let_def split: option.splits)+

lemma quiet_run:
  "\<not> running st \<Longrightarrow> recognition_threads st = 0 \<Longrightarrow> dispatch_threads st = 0 \<Longrightarrow>
   accepted (run env es st) = accepted st \<and> delivered (run env es st) = delivered st
   \<and> audio_queue (run env es st) = audio_queue st
   \<and> result_queue (run env es st) = result_queue st"
proof (induction es arbitrary: st)
  case Nil
  show ?case by simp
next
  case (Cons e es)
  note q = quiet_step [OF Cons.prems, of env e]
  from Cons.IH [OF q(1-3)] q(4-7) show ?case by simp
qed

subsection \<open>The exit status\<close>

lemma main_exit_status: "exit_status (main env model rate sched) = 0"
  by (simp add: main_def split: sum.splits prod.splits)

subsection \<open>One block, one result\<close>

lemma recognize_decoder: "snd (recognize env r b) = decoder_after env r b"
  by (auto simp: recognize_def decoder_after_def dict_get_def
      split: prod.splits sum.splits bool.splits json_doc.splits pyval.splits option.splits)

lemma recognize_finalized:
  "(case fst (recognize env r b) of Inr (Some v) \<Rightarrow> [v] | _ \<Rightarrow> []) = finalized env r b"
  by (auto simp: recognize_def finalized_def dict_get_def nonblank_def strip_Nil
      split: prod.splits sum.splits bool.splits json_doc.splits pyval.splits option.splits)

lemma recognize_failure:
  "(case fst (recognize env r b) of
      Inl e \<Rightarrow> if e = Empty then [] else [Error_processing_audio e] | _ \<Rightarrow> [])
     = failure env r b"
  by (auto simp: recognize_def failure_def dict_get_def strip_Nil
      split: prod.splits sum.splits bool.splits json_doc.splits pyval.splits option.splits)

lemma process_audio_block:
  assumes "running st" "0 < recognition_threads st" "audio_queue st = b # rest"
  shows "process_audio env st
           = st\<lparr>audio_queue := rest,
                recognizer := decoder_after env (recognizer st) b,
                accepted := accepted st @ [b],
                result_queue := result_queue st @ finalized env (recognizer st) b,
                result_put := result_put st @ finalized env (recognizer st) b,
                logged := logged st @ failure env (recognizer st) b\<rparr>"
proof -
  obtain res r' where rc: "recognize env (recognizer st) b = (res, r')"
    by (cases "recognize env (recognizer st) b")
  from rc recognize_decoder [of env "recognizer st" b]
  have d: "decoder_after env (recognizer st) b = r'" by simp
  from rc recognize_finalized [of env "recognizer st" b]
  have f: "finalized env (recognizer st) b = (case res of Inr (Some v) \<Rightarrow> [v] | _ \<Rightarrow> [])"
    by simp
  from rc recognize_failure [of env "recognizer st" b]
  have e: "failure env (recognizer st) b
             = (case res of Inl e \<Rightarrow> if e = Empty then [] else [Error_processing_audio e]
                          | _ \<Rightarrow> [])"
    by simp
  show ?thesis
    using assms rc
    by (simp add: process_audio_def queue_get_def Let_def d f e
        split: sum.splits option.splits)
qed

lemma output_processor_result:
  assumes "running st" "0 < dispatch_threads st" "result_queue st = v # rest"
  shows "output_processor st
           = st\<lparr>result_queue := rest,
                delivered := delivered st @ [v],
                logged := logged st @ invoked (callback st) (delivered st) v\<rparr>"
  using assms
  by (simp add: output_processor_def queue_get_def Let_def invoked_def
      split: prod.splits option.splits)

subsection \<open>A whole queue\<close>

lemma drain_audio_state:
  "running st \<Longrightarrow> 0 < recognition_threads st \<Longrightarrow>
   run env (replicate (length (audio_queue st)) Recognition) st
     = st\<lparr>audio_queue := [],
          recognizer := fed_state env (recognizer st) (audio_queue st),
          accepted := accepted st @ audio_queue st,
          result_queue := result_queue st @ fed_results env (recognizer st) (audio_queue st),
          result_put := result_put st @ fed_results env (recognizer st) (audio_queue st),
          logged := logged st @ fed_errors env (recognizer st) (audio_queue st)\<rparr>"
proof (induction "audio_queue st" arbitrary: st)
  case Nil
  from Nil.hyps [symmetric] show ?case by simp
next
  case (Cons b rest)
  from Cons.hyps(2) have q: "audio_queue st = b # rest" by simp
  note p = process_audio_block [OF Cons.prems q, of env]
  have a: "rest = audio_queue (process_audio env st)" by (simp add: p)
  have r: "running (process_audio env st)" using Cons.prems by (simp add: p)
  have t: "0 < recognition_threads (process_audio env st)" using Cons.prems by (simp add: p)
  from Cons.hyps(1) [OF a r t] show ?case
    by (simp add: q) (simp add: p)
qed

lemma drain_results_state:
  "running st \<Longrightarrow> 0 < dispatch_threads st \<Longrightarrow>
   run env (replicate (length (result_queue st)) Dispatch) st
     = st\<lparr>result_queue := [],
          delivered := delivered st @ result_queue st,
          logged := logged st @ invoke_all (callback st) (delivered st) (result_queue st)\<rparr>"
proof (induction "result_queue st" arbitrary: st)
  case Nil
  from Nil.hyps [symmetric] show ?case by simp
next
  case (Cons v rest)
  from Cons.hyps(2) have q: "result_queue st = v # rest" by simp
  note p = output_processor_result [OF Cons.prems q]
  have a: "rest = result_queue (output_processor st)" by (simp add: p)
  have r: "running (output_processor st)" using Cons.prems by (simp add: p)
  have t: "0 < dispatch_threads (output_processor st)" using Cons.prems by (simp add: p)
  from Cons.hyps(1) [OF a r t] show ?case
    by (simp add: q) (simp add: p)
qed

subsection \<open>Every reachable state\<close>

lemma fed_state_snoc: "fed_state env r (bs @ [b]) = decoder_after env (fed_state env r bs) b"
  by (induction bs arbitrary: r) simp_all

lemma fed_results_snoc:
  "fed_results env r (bs @ [b]) = fed_results env r bs @ finalized env (fed_state env r bs) b"
  by (induction bs arbitrary: r) simp_all

lemma fed_errors_snoc:
  "fed_errors env r (bs @ [b]) = fed_errors env r bs @ failure env (fed_state env r bs) b"
  by (induction bs arbitrary: r) simp_all

lemma invoke_all_snoc:
  "invoke_all cb earlier (vs @ [v]) = invoke_all cb earlier vs @ invoked cb (earlier @ vs) v"
  by (induction vs arbitrary: earlier) simp_all

lemma filter_failure:
  "filter is_recognition_entry (failure env r b) = failure env r b"
  "filter is_dispatch_entry (failure env r b) = []"
  by (auto simp: failure_def
      split: prod.splits sum.splits bool.splits json_doc.splits pyval.splits)

lemma filter_invoked:
  "filter is_dispatch_entry (invoked cb earlier v) = invoked cb earlier v"
  "filter is_recognition_entry (invoked cb earlier v) = []"
  by (auto simp: invoked_def comp_def split: prod.splits option.splits)

lemma process_audio_cases:
  "process_audio env st = st
   \<or> process_audio env st = st\<lparr>recognition_threads := recognition_threads st - 1\<rparr>
   \<or> (\<exists>b rest. audio_queue st = b # rest \<and> running st \<and> 0 < recognition_threads st)"
  by (cases "audio_queue st") (auto simp: process_audio_def queue_get_def)

lemma output_processor_cases:
  "output_processor st = st
   \<or> output_processor st = st\<lparr>dispatch_threads := dispatch_threads st - 1\<rparr>
   \<or> (\<exists>v rest. result_queue st = v # rest \<and> running st \<and> 0 < dispatch_threads st)"
  by (cases "result_queue st") (auto simp: output_processor_def queue_get_def)

lemma traced_process_audio: "traced env r0 cb st \<Longrightarrow> traced env r0 cb (process_audio env st)"
  using process_audio_cases [of env st]
proof (elim disjE exE conjE)
  fix b rest
  assume t: "traced env r0 cb st" and q: "audio_queue st = b # rest"
    and r: "running st" and n: "0 < recognition_threads st"
  from t show ?thesis
    by (simp add: process_audio_block [OF r n q] traced_def fed_state_snoc fed_results_snoc
        fed_errors_snoc filter_failure)
qed (simp_all add: traced_def)

lemma traced_output_processor: "traced env r0 cb st \<Longrightarrow> traced env r0 cb (output_processor st)"
  using output_processor_cases [of st]
proof (elim disjE exE conjE)
  fix v rest
  assume t: "traced env r0 cb st" and q: "result_queue st = v # rest"
    and r: "running st" and n: "0 < dispatch_threads st"
  from t show ?thesis
    by (simp add: output_processor_result [OF r n q] traced_def invoke_all_snoc filter_invoked)
qed (simp_all add: traced_def)

lemma traced_step: "traced env r0 cb st \<Longrightarrow> traced env r0 cb (step env e st)"
proof (cases e)
  case (Block indata status)
  assume "traced env r0 cb st"
  then show ?thesis by (simp add: Block traced_def audio_callback_def Let_def)
next
  case Recognition
  assume "traced env r0 cb st"
  then show ?thesis by (simp add: Recognition traced_process_audio)
next
  case Dispatch
  assume "traced env r0 cb st"
  then show ?thesis by (simp add: Dispatch traced_output_processor)
next
  case Stop
  assume "traced env r0 cb st"
  then show ?thesis by (simp add: Stop traced_def stop_def Let_def split: option.splits)
qed

lemma traced_run: "traced env r0 cb st \<Longrightarrow> traced env r0 cb (run env es st)"
  by (induction es arbitrary: st) (simp_all add: traced_step)

lemma traced_start_init:
  "RealtimeSTT_init env path rate cb = Inr st0 \<Longrightarrow>
   traced env (recognizer st0) (callback st0) (start st0)"
  by (auto simp: RealtimeSTT_init_def traced_def start_def Let_def split: sum.splits)

lemma stopped_step:
  "\<not> running st \<Longrightarrow>
   \<not> running (step env e st) \<and> audio_put (step env e st) = audio_put st"
  by (cases e)
     (simp_all add: audio_callback_def process_audio_def output_processor_def stop_def Let_def
        split: option.splits)

lemma stopped_audio_put: "\<not> running st \<Longrightarrow> audio_put (run env es st) = audio_put st"
proof (induction es arbitrary: st)
  case Nil
  show ?case by simp
next
  case (Cons e es)
  from stopped_step [OF Cons.prems, of env e] Cons.IH [of "step env e st"]
  show ?case by simp
qed

lemma running_process_audio:
  "running (process_audio env st) = running st"
  "audio_put (process_audio env st) = audio_put st"
  using process_audio_cases [of env st]
  by (auto simp: process_audio_block)

lemma running_output_processor:
  "running (output_processor st) = running st"
  "audio_put (output_processor st) = audio_put st"
  using output_processor_cases [of st]
  by (auto simp: output_processor_result)

lemma captured_run:
  "running st \<Longrightarrow> audio_put (run env es st) = audio_put st @ blocks_while_running es"
proof (induction es arbitrary: st)
  case Nil
  show ?case by simp
next
  case (Cons e es)
  show ?case
  proof (cases e)
    case (Block indata status)
    have "running (audio_callback indata status st)"
      "audio_put (audio_callback indata status st) = audio_put st @ [indata]"
      using Cons.prems by (simp_all add: audio_callback_def Let_def)
    with Cons.IH [of "audio_callback indata status st"] show ?thesis
      by (simp add: Block)
  next
    case Recognition
    with Cons.IH [of "process_audio env st"] Cons.prems show ?thesis
      by (simp add: running_process_audio)
  next
    case Dispatch
    with Cons.IH [of "output_processor st"] Cons.prems show ?thesis
      by (simp add: running_output_processor)
  next
    case Stop
    have "\<not> running (stop st)" "audio_put (stop st) = audio_put st"
      by (simp_all add: stop_def Let_def split: option.splits)
    with stopped_audio_put [of "stop st" env es] show ?thesis
      by (simp add: Stop)
  qed
qed

lemma callback_step: "callback (step env e st) = callback st"
proof (cases e)
  case (Block indata status)
  then show ?thesis by (simp add: audio_callback_def Let_def)
next
  case Recognition
  with process_audio_cases [of env st] show ?thesis
    by (auto simp: process_audio_block)
next
  case Dispatch
  with output_processor_cases [of st] show ?thesis
    by (auto simp: output_processor_result)
next
  case Stop
  then show ?thesis by (simp add: stop_def Let_def split: option.splits)
qed

lemma callback_run: "callback (run env es st) = callback st"
  by (induction es arbitrary: st) (simp_all add: callback_step)

lemma callback_start: "callback (start st) = callback st"
  by (simp add: start_def Let_def)

section \<open>Capture stage\<close>

text \<open>
  Claim C7. For every block the device delivers, the capture handler appends the block's
  bytes to the audio queue exactly when the running flag is true at that moment, and
  leaves the queue as it is when the flag is false. A non-zero stream status adds one
  warning to the log and changes nothing else: the block is enqueued all the same, and
  the handler makes no call on the device, so the stream is never stopped by it.
\<close>

theorem C7_capture:
  "audio_queue (audio_callback indata status st)
     = (if running st then audio_queue st @ [indata] else audio_queue st)
   \<and> logged (audio_callback indata status st)
     = (if status = 0 then logged st else logged st @ [Warning_audio_stream_status status])
   \<and> device (audio_callback indata status st) = device st
   \<and> stream (audio_callback indata status st) = stream st
   \<and> running (audio_callback indata status st) = running st"
  by (simp add: audio_callback_def Let_def)

section \<open>Order of the two queues\<close>

text \<open>
  Claim C2. On an object built by the constructor and started once, after any schedule of
  device blocks, worker turns and \<open>stop\<close> calls: the blocks put on the audio queue are
  the blocks the device delivered before the first \<open>stop\<close>, in order; the blocks passed to
  \<open>AcceptWaveform\<close> so far, followed by the blocks still queued, are exactly those; the
  decoder is in the state that feeding the accepted blocks one after the other leaves it
  in, and the results put and the errors logged are those of that feeding; the results
  passed to the callback so far, followed by those still queued, are exactly the results
  put; and what the dispatch stage wrote to the log is what invoking the callback on the
  delivered results, one after the other, produces. So nothing is fed or dispatched out
  of order, twice, or skipped. While the flag is true, as many turns of a stage as its
  queue is long empty the queue in that order and change nothing but what that feeding,
  respectively those invocations, produce.
\<close>

theorem C2_fifo_order:
  assumes "RealtimeSTT_init env path rate cb = Inr st0"
    and "s = run env sched (start st0)"
  shows "audio_put s = blocks_while_running sched
       \<and> audio_put s = accepted s @ audio_queue s
       \<and> recognizer s = fed_state env (recognizer st0) (accepted s)
       \<and> result_put s = fed_results env (recognizer st0) (accepted s)
       \<and> filter is_recognition_entry (logged s) = fed_errors env (recognizer st0) (accepted s)
       \<and> result_put s = delivered s @ result_queue s
       \<and> filter is_dispatch_entry (logged s) = invoke_all (callback st0) [] (delivered s)
       \<and> (if running s
          then accepted (run env (replicate (length (audio_queue s)) Recognition) s) = audio_put s
             \<and> delivered (run env (replicate (length (result_queue s)) Dispatch) s) = result_put s
             \<and> run env (replicate (length (audio_queue s)) Recognition) s
                 = s\<lparr>audio_queue := [],
                      recognizer := fed_state env (recognizer s) (audio_queue s),
                      accepted := accepted s @ audio_queue s,
                      result_queue := result_queue s @ fed_results env (recognizer s) (audio_queue s),
                      result_put := result_put s @ fed_results env (recognizer s) (audio_queue s),
                      logged := logged s @ fed_errors env (recognizer s) (audio_queue s)\<rparr>
             \<and> run env (replicate (length (result_queue s)) Dispatch) s
                 = s\<lparr>result_queue := [],
                      delivered := delivered s @ result_queue s,
                      logged := logged s @ invoke_all (callback s) (delivered s) (result_queue s)\<rparr>
          else True)"
proof -
  have f: "fifo s"
    using assms by (simp add: fifo_init fifo_start fifo_run)
  have l: "live s"
    using assms by (simp add: live_start live_run)
  have t: "traced env (recognizer st0) (callback st0) s"
    using assms by (simp add: traced_start_init traced_run)
  have "running (start st0)" "audio_put (start st0) = []"
    using assms(1) by (auto simp: RealtimeSTT_init_def start_def Let_def split: sum.splits)
  with captured_run [of "start st0" env sched] assms(2)
  have c: "audio_put s = blocks_while_running sched" by simp
  show ?thesis
  proof (cases "running s")
    case True
    with l have n: "0 < recognition_threads s" "0 < dispatch_threads s"
      by (simp_all add: live_def)
    note da = drain_audio_state [OF True n(1), of env]
    note dr = drain_results_state [OF True n(2), of env]
    have "accepted (run env (replicate (length (audio_queue s)) Recognition) s) = audio_put s"
      using f by (simp add: da fifo_def)
    moreover
    have "delivered (run env (replicate (length (result_queue s)) Dispatch) s) = result_put s"
      using f by (simp add: dr fifo_def)
    ultimately show ?thesis
      using True c f t da dr by (simp add: fifo_def traced_def)
  next
    case False
    with c f t show ?thesis by (simp add: fifo_def traced_def)
  qed
qed

theorem C2_fifo_order_witness:
  "RealtimeSTT_init mock ''vosk-model-small-en-us-0.15'' 16000 None = Inr stt0
   \<and> audio_put mixed_run = [[1], [0], [3], [0]]
   \<and> accepted mixed_run = [[1], [0], [3]]
   \<and> audio_queue mixed_run = [[0]]
   \<and> recognizer mixed_run = 3
   \<and> result_put mixed_run = [PyStr ''hello world'', PyStr ''  hi '']
   \<and> delivered mixed_run = [PyStr ''hello world'', PyStr ''  hi '']
   \<and> result_queue mixed_run = []
   \<and> filter is_dispatch_entry (logged mixed_run)
       = [Print ''Transcribed: hello world'', Print ''Transcribed:   hi '']
   \<and> running mixed_run"
proof -
  note c = C2_fifo_order [OF init_stt0 mixed_run_def]
  have b: "blocks_while_running [Block [1] 0, Block [0] 0, Block [3] 0, Block [0] 2,
               Recognition, Recognition, Recognition, Dispatch, Dispatch] = [[1], [0], [3], [0]]"
    by simp
  have a: "accepted mixed_run = [[1], [0], [3]]" by code_simp
  have d: "delivered mixed_run = [PyStr ''hello world'', PyStr ''  hi '']" by code_simp
  have r: "running mixed_run" by code_simp
  have s0: "recognizer stt0 = 0" "callback stt0 = default_callback"
    by (simp_all add: stt0_def)
  have fs: "fed_state mock 0 [[1], [0], [3]] = 3" by code_simp
  have fr: "fed_results mock 0 [[1], [0], [3]] = [PyStr ''hello world'', PyStr ''  hi '']"
    by code_simp
  have ia: "invoke_all default_callback [] [PyStr ''hello world'', PyStr ''  hi '']
              = [Print ''Transcribed: hello world'', Print ''Transcribed:   hi '']"
    by code_simp
  from c have p: "audio_put mixed_run = [[1], [0], [3], [0]]"
    by (simp only: b)
  from c have "audio_put mixed_run = accepted mixed_run @ audio_queue mixed_run"
    by blast
  with p a have q: "audio_queue mixed_run = [[0]]" by simp
  from c have "recognizer mixed_run = fed_state mock (recognizer stt0) (accepted mixed_run)"
    by blast
  then have z: "recognizer mixed_run = 3" by (simp only: a s0 fs)
  from c
  have "result_put mixed_run = fed_results mock (recognizer stt0) (accepted mixed_run)"
    by blast
  then have u: "result_put mixed_run = [PyStr ''hello world'', PyStr ''  hi '']"
    by (simp only: a s0 fr)
  from c have "result_put mixed_run = delivered mixed_run @ result_queue mixed_run"
    by blast
  with u d have v: "result_queue mixed_run = []" by simp
  from c
  have "filter is_dispatch_entry (logged mixed_run)
          = invoke_all (callback stt0) [] (delivered mixed_run)"
    by blast
  then have w: "filter is_dispatch_entry (logged mixed_run)
                  = [Print ''Transcribed: hello world'', Print ''Transcribed:   hi '']"
    by (simp only: d s0 ia)
  from init_stt0 p a q z u d v w r show ?thesis by blast
qed

section \<open>Filtering of empty results\<close>

text \<open>
  Claim C1. On an object built by the constructor and started once, in the state reached
  by any schedule: every value ever put on the result queue, every value on it now and
  every value the callback was invoked with is a string that is not empty once stripped,
  so an empty or whitespace-only text is never placed on the result queue and never given
  to the callback. And when the next block makes the recognizer report an utterance
  boundary with a decoded result object, the turn of the recognition stage appends the
  text field (the value under \<open>text\<close>, the empty string when the key is missing) to the
  result queue if that text is non-empty after stripping, and leaves the result queue as
  it is otherwise.
\<close>

theorem C1_filter:
  assumes "RealtimeSTT_init env path rate cb = Inr st0"
    and "st = run env sched (start st0)"
  shows "list_all nonblank (result_put st)
       \<and> list_all nonblank (result_queue st)
       \<and> list_all nonblank (delivered st)
       \<and> (running st \<and> audio_queue st = b # rest
            \<and> AcceptWaveform env (recognizer st) b = (Inr True, r1)
            \<and> Result env r1 = (Inr s, r2)
            \<and> json_loads env s = Inr (JObject result)
          \<longrightarrow> result_queue (process_audio env st)
              = (if nonblank (dict_get result ''text'' (PyStr []))
                 then result_queue st @ [dict_get result ''text'' (PyStr [])]
                 else result_queue st))"
proof -
  have f: "fifo st" using assms by (simp add: fifo_init fifo_start fifo_run)
  have l: "live st" using assms by (simp add: live_start live_run)
  have p: "list_all nonblank (result_put st)"
    using assms filtered_run [OF filtered_start [OF filtered_init], of env path rate cb st0 env sched]
    by (simp add: filtered_def)
  with f have qd: "list_all nonblank (result_queue st)" "list_all nonblank (delivered st)"
    by (simp_all add: fifo_def)
  have "result_queue (process_audio env st)
              = (if nonblank (dict_get result ''text'' (PyStr []))
                 then result_queue st @ [dict_get result ''text'' (PyStr [])]
                 else result_queue st)"
    if r: "running st" and q: "audio_queue st = b # rest"
      and a: "AcceptWaveform env (recognizer st) b = (Inr True, r1)"
      and u: "Result env r1 = (Inr s, r2)"
      and j: "json_loads env s = Inr (JObject result)"
  proof -
    from l r have t: "0 < recognition_threads st" by (simp add: live_def)
    show ?thesis
      using process_audio_result_queue [OF r t q recognize_boundary [OF a u j]]
      by (simp add: nonblank_def split: pyval.splits)
  qed
  with p qd show ?thesis by blast
qed

theorem C1_filter_witness:
  "RealtimeSTT_init mock ''vosk-model-small-en-us-0.15'' 16000 None = Inr stt0
   \<and> running (run mock [Block [3] 0] (start stt0))
   \<and> audio_queue (run mock [Block [3] 0] (start stt0)) = [[3]]
   \<and> AcceptWaveform mock (recognizer (run mock [Block [3] 0] (start stt0))) [3] = (Inr True, 3)
   \<and> Result mock 3 = (Inr ''  hi '', 3)
   \<and> json_loads mock ''  hi ''
       = Inr (JObject (\<lambda>k. if k = ''text'' then Some (PyStr ''  hi '') else None))
   \<and> result_queue (process_audio mock (run mock [Block [3] 0] (start stt0))) = [PyStr ''  hi '']
   \<and> running (run mock [Block [4] 0] (start stt0))
   \<and> audio_queue (run mock [Block [4] 0] (start stt0)) = [[4]]
   \<and> AcceptWaveform mock (recognizer (run mock [Block [4] 0] (start stt0))) [4] = (Inr True, 4)
   \<and> Result mock 4 = (Inr ''   '', 4)
   \<and> json_loads mock ''   ''
       = Inr (JObject (\<lambda>k. if k = ''text'' then Some (PyStr ''   '') else None))
   \<and> result_queue (process_audio mock (run mock [Block [4] 0] (start stt0))) = []"
proof -
  have r3: "running (run mock [Block [3] 0] (start stt0))" by code_simp
  have q3: "audio_queue (run mock [Block [3] 0] (start stt0)) = [[3]]" by code_simp
  have a3: "AcceptWaveform mock (recognizer (run mock [Block [3] 0] (start stt0))) [3]
              = (Inr True, 3)"
    by code_simp
  have u3: "Result mock 3 = (Inr ''  hi '', 3)" by (simp add: mock_def)
  have j3: "json_loads mock ''  hi ''
              = Inr (JObject (\<lambda>k. if k = ''text'' then Some (PyStr ''  hi '') else None))"
    by (simp add: mock_def)
  have e3: "result_queue (run mock [Block [3] 0] (start stt0)) = []" by code_simp
  have n3: "nonblank (PyStr ''  hi '')" by code_simp
  have r4: "running (run mock [Block [4] 0] (start stt0))" by code_simp
  have q4: "audio_queue (run mock [Block [4] 0] (start stt0)) = [[4]]" by code_simp
  have a4: "AcceptWaveform mock (recognizer (run mock [Block [4] 0] (start stt0))) [4]
              = (Inr True, 4)"
    by code_simp
  have u4: "Result mock 4 = (Inr ''   '', 4)" by (simp add: mock_def)
  have j4: "json_loads mock ''   ''
              = Inr (JObject (\<lambda>k. if k = ''text'' then Some (PyStr ''   '') else None))"
    by (simp add: mock_def)
  have e4: "result_queue (run mock [Block [4] 0] (start stt0)) = []" by code_simp
  have n4: "\<not> nonblank (PyStr ''   '')" by code_simp
  have c3: "result_queue (process_audio mock (run mock [Block [3] 0] (start stt0)))
              = [PyStr ''  hi '']"
    using C1_filter [OF init_stt0 refl, of "[Block [3] 0]" "[3]" "[]" 3 "''  hi ''" 3
        "\<lambda>k. if k = ''text'' then Some (PyStr ''  hi '') else None"]
      r3 q3 a3 u3 j3 e3 n3
    by (simp add: dict_get_def)
  have c4: "result_queue (process_audio mock (run mock [Block [4] 0] (start stt0))) = []"
    using C1_filter [OF init_stt0 refl, of "[Block [4] 0]" "[4]" "[]" 4 "''   ''" 4
        "\<lambda>k. if k = ''text'' then Some (PyStr ''   '') else None"]
      r4 q4 a4 u4 j4 e4 n4
    by (simp add: dict_get_def)
  from init_stt0 r3 q3 a3 u3 j3 c3 r4 q4 a4 u4 j4 c4 show ?thesis
    by (intro conjI)
qed

section \<open>Fault isolation in the recognition stage\<close>

text \<open>
  Claim C3. When the recognition stage is running and the block at the head of the audio
  queue makes the processing raise (the recognizer or the JSON decoder fails, or the
  result has no usable text field), the turn takes the block off the queue, logs the error
  and changes nothing else: the flag and the thread of the stage are as before. The turns
  that follow process every block that was queued behind it, in order and whatever those
  blocks do: afterwards the state differs from the one before the failing block only in
  that the audio queue is empty, all those blocks were accepted, the decoder is in the
  state that feeding the later blocks leaves it in, the results of the later blocks are
  on the result queue, and the log holds the error followed by the errors of the later
  blocks.
\<close>

theorem C3_recognition_isolation:
  assumes "running st" and "0 < recognition_threads st" and "audio_queue st = b # rest"
    and "recognize env (recognizer st) b = (Inl e, r')"
  shows "process_audio env st
           = st\<lparr>audio_queue := rest, recognizer := r', accepted := accepted st @ [b],
                logged := logged st @ [Error_processing_audio e]\<rparr>
       \<and> accepted (run env (replicate (length rest) Recognition) (process_audio env st))
           = accepted st @ b # rest
       \<and> audio_queue (run env (replicate (length rest) Recognition) (process_audio env st)) = []
       \<and> running (run env (replicate (length rest) Recognition) (process_audio env st))
       \<and> recognition_threads (run env (replicate (length rest) Recognition) (process_audio env st))
           = recognition_threads st
       \<and> run env (replicate (length rest) Recognition) (process_audio env st)
           = st\<lparr>audio_queue := [],
                recognizer := fed_state env r' rest,
                accepted := accepted st @ b # rest,
                result_queue := result_queue st @ fed_results env r' rest,
                result_put := result_put st @ fed_results env r' rest,
                logged := logged st @ Error_processing_audio e # fed_errors env r' rest\<rparr>"
proof -
  note p = process_audio_raises [OF assms]
  have q: "audio_queue (process_audio env st) = rest" by (simp add: p)
  have r: "running (process_audio env st)" using assms(1) by (simp add: p)
  have t: "0 < recognition_threads (process_audio env st)" using assms(2) by (simp add: p)
  from drain_audio_state [OF r t, of env]
  have d: "run env (replicate (length rest) Recognition) (process_audio env st)
           = st\<lparr>audio_queue := [],
                recognizer := fed_state env r' rest,
                accepted := accepted st @ b # rest,
                result_queue := result_queue st @ fed_results env r' rest,
                result_put := result_put st @ fed_results env r' rest,
                logged := logged st @ Error_processing_audio e # fed_errors env r' rest\<rparr>"
    unfolding q by (simp add: p)
  from assms(1,2) show ?thesis
    by (simp only: d) (simp add: p)
qed

theorem C3_recognition_isolation_witness:
  "running third_block_malformed
   \<and> 0 < recognition_threads third_block_malformed
   \<and> audio_queue third_block_malformed = [[], [3], [0]]
   \<and> recognize mock (recognizer third_block_malformed) []
       = (Inl (Raised ''malformed block''), 0)
   \<and> logged (process_audio mock third_block_malformed)
       = [Info_started, Error_processing_audio (Raised ''malformed block'')]
   \<and> accepted (run mock [Recognition, Recognition] (process_audio mock third_block_malformed))
       = [[1], [0], [], [3], [0]]
   \<and> recognition_threads
         (run mock [Recognition, Recognition] (process_audio mock third_block_malformed)) = 1
   \<and> result_put (run mock [Recognition, Recognition] (process_audio mock third_block_malformed))
       = [PyStr ''hello world'', PyStr ''  hi '']
   \<and> result_queue (run mock [Recognition, Recognition] (process_audio mock third_block_malformed))
       = [PyStr ''hello world'', PyStr ''  hi '']
   \<and> recognizer (run mock [Recognition, Recognition] (process_audio mock third_block_malformed))
       = 0
   \<and> logged (run mock [Recognition, Recognition] (process_audio mock third_block_malformed))
       = [Info_started, Error_processing_audio (Raised ''malformed block'')]"
proof -
  have r: "running third_block_malformed" by code_simp
  have t: "0 < recognition_threads third_block_malformed" by code_simp
  have t1: "recognition_threads third_block_malformed = 1" by code_simp
  have q: "audio_queue third_block_malformed = [[], [3], [0]]" by code_simp
  have x: "recognize mock (recognizer third_block_malformed) []
             = (Inl (Raised ''malformed block''), 0)"
    by code_simp
  have a: "accepted third_block_malformed = [[1], [0]]" by code_simp
  have l: "logged third_block_malformed = [Info_started]" by code_simp
  have rp: "result_put third_block_malformed = [PyStr ''hello world'']"
    "result_queue third_block_malformed = [PyStr ''hello world'']"
    by code_simp+
  have fs: "fed_state mock 0 [[3], [0]] = 0" by code_simp
  have fr: "fed_results mock 0 [[3], [0]] = [PyStr ''  hi '']" by code_simp
  have fe: "fed_errors mock 0 [[3], [0]] = []" by code_simp
  note c = C3_recognition_isolation [OF r t q x]
  have c1: "logged (process_audio mock third_block_malformed)
       = [Info_started, Error_processing_audio (Raised ''malformed block'')]"
    using c [THEN conjunct1] by (simp add: l)
  have c2: "run mock [Recognition, Recognition] (process_audio mock third_block_malformed)
       = third_block_malformed\<lparr>audio_queue := [], recognizer := 0,
           accepted := [[1], [0], [], [3], [0]],
           result_queue := [PyStr ''hello world'', PyStr ''  hi ''],
           result_put := [PyStr ''hello world'', PyStr ''  hi ''],
           logged := [Info_started, Error_processing_audio (Raised ''malformed block'')]\<rparr>"
    using c [THEN conjunct2, THEN conjunct2, THEN conjunct2, THEN conjunct2, THEN conjunct2,
             unfolded fs fr fe]
    by (simp add: a l rp)
  from c2 t1 have f:
    "accepted (run mock [Recognition, Recognition] (process_audio mock third_block_malformed))
       = [[1], [0], [], [3], [0]]"
    "recognition_threads
         (run mock [Recognition, Recognition] (process_audio mock third_block_malformed)) = 1"
    "result_put (run mock [Recognition, Recognition] (process_audio mock third_block_malformed))
       = [PyStr ''hello world'', PyStr ''  hi '']"
    "result_queue (run mock [Recognition, Recognition] (process_audio mock third_block_malformed))
       = [PyStr ''hello world'', PyStr ''  hi '']"
    "recognizer (run mock [Recognition, Recognition] (process_audio mock third_block_malformed))
       = 0"
    "logged (run mock [Recognition, Recognition] (process_audio mock third_block_malformed))
       = [Info_started, Error_processing_audio (Raised ''malformed block'')]"
    by simp_all
  from r t q x c1 f show ?thesis by blast
qed

section \<open>Fault isolation in the dispatch stage\<close>

text \<open>
  Claim C4. A consumer that raises \<open>queue.Empty\<close> on the first result: the turn of the
  dispatch stage invokes it with that result and takes the exception for an empty queue,
  so the log is the same before and after the turn, with no error entry. The stage keeps
  polling and the next turn delivers the second result.
\<close>

theorem C4_queue_Empty_from_callback:
  "result_queue first_result_refused = [PyStr ''hello world'', PyStr ''  hi '']
   \<and> running first_result_refused
   \<and> dispatch_threads first_result_refused = 1
   \<and> callback first_result_refused (delivered first_result_refused) (PyStr ''hello world'')
       = ([], Some Empty)
   \<and> delivered (output_processor first_result_refused) = [PyStr ''hello world'']
   \<and> logged first_result_refused = [Info_started]
   \<and> logged (output_processor first_result_refused) = [Info_started]
   \<and> dispatch_threads (output_processor first_result_refused) = 1
   \<and> delivered (output_processor (output_processor first_result_refused))
       = [PyStr ''hello world'', PyStr ''  hi '']"
  by code_simp

section \<open>The text reaches the consumer as the recognizer gave it\<close>

text \<open>
  Claim C9. When the block at the head of the audio queue completes an utterance whose
  decoded result has under \<open>text\<close> a string that is not empty once stripped, the turn of
  the recognition stage appends exactly that string to the result queue, with its leading
  and trailing whitespace, and changes nothing else but the audio queue, the decoder and
  the call history. The turns of the dispatch stage that empty the result queue invoke
  the callback on what was queued before and then on exactly that string: the log grows
  by what those invocations produce, the last of them on the unmodified text.
\<close>

theorem C9_text_unmodified:
  assumes "running st" and "0 < recognition_threads st" and "0 < dispatch_threads st"
    and "audio_queue st = b # rest"
    and "AcceptWaveform env (recognizer st) b = (Inr True, r1)"
    and "Result env r1 = (Inr s, r2)"
    and "json_loads env s = Inr (JObject result)"
    and "result ''text'' = Some (PyStr t)"
    and "strip t \<noteq> []"
  shows "result_queue (process_audio env st) = result_queue st @ [PyStr t]
       \<and> delivered (run env (replicate (Suc (length (result_queue st))) Dispatch)
                      (process_audio env st))
           = delivered st @ result_queue st @ [PyStr t]
       \<and> process_audio env st
           = st\<lparr>audio_queue := rest, recognizer := r2, accepted := accepted st @ [b],
                result_queue := result_queue st @ [PyStr t],
                result_put := result_put st @ [PyStr t]\<rparr>
       \<and> logged (run env (replicate (Suc (length (result_queue st))) Dispatch)
                   (process_audio env st))
           = logged st @ invoke_all (callback st) (delivered st) (result_queue st)
               @ invoked (callback st) (delivered st @ result_queue st) (PyStr t)"
proof -
  have rec: "recognize env (recognizer st) b = (Inr (Some (PyStr t)), r2)"
    using recognize_boundary [OF assms(5-7)] assms(8,9) by (simp add: dict_get_def)
  have p: "process_audio env st
           = st\<lparr>audio_queue := rest, recognizer := r2, accepted := accepted st @ [b],
                result_queue := result_queue st @ [PyStr t],
                result_put := result_put st @ [PyStr t]\<rparr>"
    using assms(1,2,4) rec by (simp add: process_audio_def queue_get_def Let_def)
  have r: "running (process_audio env st)" using assms(1) by (simp add: p)
  have d: "0 < dispatch_threads (process_audio env st)" using assms(3) by (simp add: p)
  have n: "Suc (length (result_queue st)) = length (result_queue (process_audio env st))"
    by (simp add: p)
  from drain_results_state [OF r d, of env]
  have dr: "run env (replicate (Suc (length (result_queue st))) Dispatch) (process_audio env st)
              = (process_audio env st)\<lparr>result_queue := [],
                  delivered := delivered st @ result_queue st @ [PyStr t],
                  logged := logged st @ invoke_all (callback st) (delivered st)
                                          (result_queue st @ [PyStr t])\<rparr>"
    unfolding n [symmetric] by (simp add: p)
  show ?thesis
    by (simp only: dr) (simp add: p invoke_all_snoc)
qed

theorem C9_text_unmodified_witness:
  "running padded_text_next
   \<and> 0 < recognition_threads padded_text_next
   \<and> 0 < dispatch_threads padded_text_next
   \<and> audio_queue padded_text_next = [[3]]
   \<and> AcceptWaveform mock (recognizer padded_text_next) [3] = (Inr True, 3)
   \<and> Result mock 3 = (Inr ''  hi '', 3)
   \<and> json_loads mock ''  hi ''
       = Inr (JObject (\<lambda>k. if k = ''text'' then Some (PyStr ''  hi '') else None))
   \<and> strip ''  hi '' \<noteq> []
   \<and> result_queue (process_audio mock padded_text_next)
       = [PyStr ''hello world'', PyStr ''  hi '']
   \<and> delivered (run mock [Dispatch, Dispatch] (process_audio mock padded_text_next))
       = [PyStr ''hello world'', PyStr ''  hi '']
   \<and> logged (run mock [Dispatch, Dispatch] (process_audio mock padded_text_next))
       = [Info_started, Print ''Transcribed: hello world'', Print ''Transcribed:   hi '']"
proof -
  have r: "running padded_text_next" by code_simp
  have t: "0 < recognition_threads padded_text_next" by code_simp
  have t': "0 < dispatch_threads padded_text_next" by code_simp
  have q: "audio_queue padded_text_next = [[3]]" by code_simp
  have a: "AcceptWaveform mock (recognizer padded_text_next) [3] = (Inr True, 3)" by code_simp
  have u: "Result mock 3 = (Inr ''  hi '', 3)" by (simp add: mock_def)
  have j: "json_loads mock ''  hi ''
              = Inr (JObject (\<lambda>k. if k = ''text'' then Some (PyStr ''  hi '') else None))"
    by (simp add: mock_def)
  have k: "(\<lambda>k. if k = ''text'' then Some (PyStr ''  hi '') else None) ''text''
             = Some (PyStr ''  hi '')"
    by simp
  have n: "strip ''  hi '' \<noteq> []" by code_simp
  have rq: "result_queue padded_text_next = [PyStr ''hello world'']" by code_simp
  have d: "delivered padded_text_next = []" by code_simp
  have l: "logged padded_text_next = [Info_started]" by code_simp
  have cb: "callback padded_text_next = default_callback"
    unfolding padded_text_next_def
    by (simp only: callback_run callback_start) (simp add: stt0_def)
  have i1: "invoke_all default_callback [] [PyStr ''hello world'']
              = [Print ''Transcribed: hello world'']"
    by code_simp
  have i2: "invoked default_callback [PyStr ''hello world''] (PyStr ''  hi '')
              = [Print ''Transcribed:   hi '']"
    by code_simp
  note c = C9_text_unmodified [OF r t t' q a u j k n]
  have c1: "result_queue (process_audio mock padded_text_next)
       = [PyStr ''hello world'', PyStr ''  hi '']"
    using c [THEN conjunct1] by (simp add: rq)
  have c2: "delivered (run mock [Dispatch, Dispatch] (process_audio mock padded_text_next))
       = [PyStr ''hello world'', PyStr ''  hi '']"
    using c [THEN conjunct2, THEN conjunct1] by (simp add: rq d)
  have c3: "logged (run mock [Dispatch, Dispatch] (process_audio mock padded_text_next))
       = [Info_started, Print ''Transcribed: hello world'', Print ''Transcribed:   hi '']"
    using c [THEN conjunct2, THEN conjunct2, THEN conjunct2, unfolded cb d rq append_Nil i1 i2]
    by (simp add: l)
  from r t t' q a u j n c1 c2 c3 show ?thesis by simp
qed

section \<open>A model that does not load\<close>

text \<open>
  Claim C5. With a model path that does not load, the constructor prints the error and
  raises \<open>SystemExit(1)\<close>; \<open>main\<close> then leaves through its \<open>finally\<close> clause, which
  finds no object to stop and calls \<open>sys.exit(0)\<close>: the exit status of the process is 0.
  No object exists and no audio stream was opened.
\<close>

theorem C5_bad_model_exit_status:
  "RealtimeSTT_init mock ''no-such-model'' 16000 None
     = Inl ([Print ''Error loading model: Failed to create a model'',
             Print ''Please ensure you have downloaded the Vosk model.''], SystemExit 1)
   \<and> exit_status (main mock ''no-such-model'' 16000 []) = 0
   \<and> final (main mock ''no-such-model'' 16000 []) = None
   \<and> opened (main mock ''no-such-model'' 16000 []) = []"
  by (simp add: main_def RealtimeSTT_init_def mock_def opened_def)

section \<open>Stopping twice\<close>

text \<open>
  Claim C6, as stated, fails: on the started mock object the first \<open>stop\<close> leaves the
  flag false and has stopped and closed stream 0; a second \<open>stop\<close>, called when the
  system is not running, asks the device to stop and close stream 0 once more, so it is
  not a no-op and the release is requested twice.
\<close>

theorem C6_second_stop_counterexample:
  "\<not> running (stop (start stt0))
   \<and> device (stop (start stt0))
       = [RawInputStream 16000 8000 Int16 1 Audio_callback, Stream_start 0,
          Stream_stop 0, Stream_close 0]
   \<and> device (stop (stop (start stt0)))
       = [RawInputStream 16000 8000 Int16 1 Audio_callback, Stream_start 0,
          Stream_stop 0, Stream_close 0, Stream_stop 0, Stream_close 0]
   \<and> stop (stop (start stt0)) \<noteq> stop (start stt0)"
proof -
  have d1: "device (stop (start stt0))
       = [RawInputStream 16000 8000 Int16 1 Audio_callback, Stream_start 0,
          Stream_stop 0, Stream_close 0]"
    by (simp add: stop_def start_def stt0_def Let_def)
  have d2: "device (stop (stop (start stt0)))
       = [RawInputStream 16000 8000 Int16 1 Audio_callback, Stream_start 0,
          Stream_stop 0, Stream_close 0, Stream_stop 0, Stream_close 0]"
    by (simp add: stop_def start_def stt0_def Let_def)
  have r: "\<not> running (stop (start stt0))"
    by (simp add: stop_def start_def stt0_def Let_def)
  have "stop (stop (start stt0)) \<noteq> stop (start stt0)"
  proof
    assume "stop (stop (start stt0)) = stop (start stt0)"
    then have "device (stop (stop (start stt0))) = device (stop (start stt0))" by simp
    then show False by (simp only: d1 d2) simp
  qed
  with r d1 d2 show ?thesis by simp
qed

text \<open>
  Claim C6, amended. Every \<open>stop\<close> leaves the flag false, makes the device calls
  \<open>stop\<close> and \<open>close\<close> on the stored stream if \<open>start\<close> ever stored one and none
  otherwise, and logs the stop message. A second \<open>stop\<close> differs from the first only
  by repeating those device calls and that log entry: it changes no attribute of the
  object, no queue and no worker. The same holds of every \<open>stop\<close>, whose whole effect
  is on the flag, the device and the log, and so of a \<open>stop\<close> on any object that is
  not running, never started or already stopped: it changes only the device calls and
  the log.
\<close>

theorem C6_stop_repeated:
  "running (stop st) = False
   \<and> device (stop st)
       = device st @ (case stream st of None \<Rightarrow> [] | Some sid \<Rightarrow> [Stream_stop sid, Stream_close sid])
   \<and> logged (stop st) = logged st @ [Info_stopped]
   \<and> stop (stop st)
       = (stop st)\<lparr>device := device (stop st) @
                      (case stream st of None \<Rightarrow> [] | Some sid \<Rightarrow> [Stream_stop sid, Stream_close sid]),
                   logged := logged (stop st) @ [Info_stopped]\<rparr>
   \<and> stop st
       = st\<lparr>running := False,
              device := device st @
                (case stream st of None \<Rightarrow> [] | Some sid \<Rightarrow> [Stream_stop sid, Stream_close sid]),
              logged := logged st @ [Info_stopped]\<rparr>
   \<and> (if running st then True
       else stop st
           = st\<lparr>device := device st @
                   (case stream st of None \<Rightarrow> [] | Some sid \<Rightarrow> [Stream_stop sid, Stream_close sid]),
                 logged := logged st @ [Info_stopped]\<rparr>)"
proof -
  have "st\<lparr>running := False\<rparr> = st" if "\<not> running st"
    using that by (cases st) simp
  then show ?thesis
    by (simp add: stop_def Let_def split: option.splits)
qed

theorem C6_stop_repeated_witness:
  "\<not> running stt0 \<and> stop stt0 = stt0\<lparr>logged := [Info_stopped]\<rparr>
   \<and> \<not> running (stop (start stt0))
   \<and> stop (stop (start stt0))
       = (stop (start stt0))\<lparr>device := device (stop (start stt0)) @ [Stream_stop 0, Stream_close 0],
                              logged := logged (stop (start stt0)) @ [Info_stopped]\<rparr>"
proof -
  have r: "\<not> running stt0" "stream stt0 = None" "logged stt0 = []" "device stt0 = []"
    by (simp_all add: stt0_def)
  have s: "stream (start stt0) = Some 0"
    by (simp add: start_def Let_def stt0_def)
  from C6_stop_repeated [of stt0] r have a: "stop stt0 = stt0\<lparr>logged := [Info_stopped]\<rparr>"
    by (cases stt0) (simp add: stt0_def)
  note c = C6_stop_repeated [of "start stt0", unfolded s option.case]
  from c have b1: "\<not> running (stop (start stt0))" by blast
  from c
  have b2: "stop (stop (start stt0))
       = (stop (start stt0))\<lparr>device := device (stop (start stt0)) @ [Stream_stop 0, Stream_close 0],
                              logged := logged (stop (start stt0)) @ [Info_stopped]\<rparr>"
    by blast
  from r(1) a b1 b2 show ?thesis by blast
qed

section \<open>What start does\<close>

text \<open>
  Claim C8, as stated, fails: \<open>start\<close> does not construct the queues. On the mock object,
  started, given two blocks of which one is recognized, and stopped, a second \<open>start\<close>
  finds and keeps the block and the result left on the two queues.
\<close>

theorem C8_queues_outlive_start_counterexample:
  "audio_queue (start (run mock [Block [1] 0, Recognition, Block [3] 0, Stop] (start stt0)))
     = [[3]]
   \<and> result_queue (start (run mock [Block [1] 0, Recognition, Block [3] 0, Stop] (start stt0)))
     = [PyStr ''hello world'']"
  by code_simp

text \<open>
  Claim C8, amended. The constructor builds the two queues, empty. \<open>start\<close> on the new
  object sets the flag, opens the first input stream at the configured sample rate with
  blocks of 8000 frames, 16-bit mono, with the capture handler registered, starts it, has
  one thread in each worker loop and logs the start. On any object \<open>start\<close> sets the flag,
  opens and starts a new stream with the object's rate and block size, adds one thread to
  each stage and leaves both queues as they are; it returns with no turn of a worker
  taken (no call of \<open>AcceptWaveform\<close> or the callback is made by \<open>start\<close>).
\<close>

theorem C8_start:
  assumes "RealtimeSTT_init env path rate cb = Inr st0"
  shows "audio_queue st0 = [] \<and> result_queue st0 = []
       \<and> start st0
           = st0\<lparr>running := True, stream := Some 0,
                  device := [RawInputStream rate 8000 Int16 1 Audio_callback, Stream_start 0],
                  recognition_threads := 1, dispatch_threads := 1,
                  logged := [Info_started]\<rparr>
       \<and> running (start st)
       \<and> audio_queue (start st) = audio_queue st
       \<and> result_queue (start st) = result_queue st
       \<and> device (start st)
           = device st @ [RawInputStream (sample_rate st) (block_size st) Int16 1 Audio_callback,
                          Stream_start (length (filter is_open_call (device st)))]
       \<and> recognition_threads (start st) = Suc (recognition_threads st)
       \<and> dispatch_threads (start st) = Suc (dispatch_threads st)
       \<and> accepted (start st) = accepted st
       \<and> delivered (start st) = delivered st"
  using assms
  by (auto simp: RealtimeSTT_init_def start_def Let_def split: sum.splits)

theorem C8_start_witness:
  "RealtimeSTT_init mock ''vosk-model-small-en-us-0.15'' 16000 None = Inr stt0
   \<and> start stt0
       = stt0\<lparr>running := True, stream := Some 0,
               device := [RawInputStream 16000 8000 Int16 1 Audio_callback, Stream_start 0],
               recognition_threads := 1, dispatch_threads := 1,
               logged := [Info_started]\<rparr>
   \<and> audio_queue (start (stop (audio_callback [1] 0 (start stt0)))) = [[1]]"
proof -
  note c = C8_start [OF init_stt0, of "stop (audio_callback [1] 0 (start stt0))"]
  have q: "audio_queue (stop (audio_callback [1] 0 (start stt0))) = [[1]]"
    by code_simp
  from c have s: "start stt0
       = stt0\<lparr>running := True, stream := Some 0,
               device := [RawInputStream 16000 8000 Int16 1 Audio_callback, Stream_start 0],
               recognition_threads := 1, dispatch_threads := 1,
               logged := [Info_started]\<rparr>"
    by blast
  from c have "audio_queue (start (stop (audio_callback [1] 0 (start stt0))))
                 = audio_queue (stop (audio_callback [1] 0 (start stt0)))"
    by blast
  with q have "audio_queue (start (stop (audio_callback [1] 0 (start stt0)))) = [[1]]"
    by simp
  with init_stt0 s show ?thesis by blast
qed

section \<open>After the flag is false\<close>

text \<open>
  Claim C10, as stated, fails: on the mock object, after \<open>stop\<close> and after both worker
  loops have seen the false flag and ended, one block is left on the audio queue and one
  result on the result queue; a later \<open>start\<close> launches new workers, which pass that block
  to \<open>AcceptWaveform\<close> and that result to the callback.
\<close>

theorem C10_restart_counterexample:
  "\<not> running (run mock [Block [1] 0, Block [3] 0, Recognition, Stop, Recognition, Dispatch] (start stt0))
   \<and> recognition_threads
        (run mock [Block [1] 0, Block [3] 0, Recognition, Stop, Recognition, Dispatch] (start stt0)) = 0
   \<and> dispatch_threads
        (run mock [Block [1] 0, Block [3] 0, Recognition, Stop, Recognition, Dispatch] (start stt0)) = 0
   \<and> audio_queue
        (run mock [Block [1] 0, Block [3] 0, Recognition, Stop, Recognition, Dispatch] (start stt0))
       = [[3]]
   \<and> result_queue
        (run mock [Block [1] 0, Block [3] 0, Recognition, Stop, Recognition, Dispatch] (start stt0))
       = [PyStr ''hello world'']
   \<and> accepted
        (run mock [Block [1] 0, Block [3] 0, Recognition, Stop, Recognition, Dispatch] (start stt0))
       = [[1]]
   \<and> delivered
        (run mock [Block [1] 0, Block [3] 0, Recognition, Stop, Recognition, Dispatch] (start stt0))
       = []
   \<and> accepted
        (run mock [Recognition, Dispatch]
          (start (run mock [Block [1] 0, Block [3] 0, Recognition, Stop, Recognition, Dispatch]
                   (start stt0))))
       = [[1], [3]]
   \<and> delivered
        (run mock [Recognition, Dispatch]
          (start (run mock [Block [1] 0, Block [3] 0, Recognition, Stop, Recognition, Dispatch]
                   (start stt0))))
       = [PyStr ''hello world'']"
  by code_simp

text \<open>
  Claim C10, amended. Once the flag is false and no thread is left in either worker loop,
  then for as long as \<open>start\<close> is not called again, whatever the device delivers and
  whoever calls \<open>stop\<close>: no further call of \<open>AcceptWaveform\<close> and no further invocation
  of the callback is made, and the blocks and results on the two queues stay there.
\<close>

theorem C10_after_workers_exit:
  assumes "\<not> running st" and "recognition_threads st = 0" and "dispatch_threads st = 0"
  shows "accepted (run env sched st) = accepted st
       \<and> delivered (run env sched st) = delivered st
       \<and> audio_queue (run env sched st) = audio_queue st
       \<and> result_queue (run env sched st) = result_queue st"
  using assms by (rule quiet_run)

theorem C10_after_workers_exit_witness:
  "\<not> running workers_gone
   \<and> recognition_threads workers_gone = 0
   \<and> dispatch_threads workers_gone = 0
   \<and> accepted (run mock [Block [0] 0, Recognition, Dispatch, Stop, Recognition] workers_gone)
       = [[1]]
   \<and> delivered (run mock [Block [0] 0, Recognition, Dispatch, Stop, Recognition] workers_gone)
       = []
   \<and> audio_queue (run mock [Block [0] 0, Recognition, Dispatch, Stop, Recognition] workers_gone)
       = [[3]]
   \<and> result_queue (run mock [Block [0] 0, Recognition, Dispatch, Stop, Recognition] workers_gone)
       = [PyStr ''hello world'']"
proof -
  have r: "\<not> running workers_gone" by code_simp
  have t: "recognition_threads workers_gone = 0" by code_simp
  have t': "dispatch_threads workers_gone = 0" by code_simp
  have v: "accepted workers_gone = [[1]]" "delivered workers_gone = []"
    "audio_queue workers_gone = [[3]]" "result_queue workers_gone = [PyStr ''hello world'']"
    by code_simp+
  from C10_after_workers_exit [OF r t t',
      of mock "[Block [0] 0, Recognition, Dispatch, Stop, Recognition]"] r t t'
  show ?thesis by (simp only: v) simp
qed

end
